theory Spec2Isabelle
  imports Main
begin

section \<open>lazydsn: a database driver wrapper with delayed DSN evaluation\<close>

text \<open>
  The package wraps an inner \<open>database/sql\<close> driver and resolves the DSN through a
  provider each time a connection is opened. The provider, the inner driver and the
  inner driver's connectors are collaborators supplied by the application: they are
  modelled as functions over an environment of type \<open>'w\<close> that they may read and
  change, returning an error or a value as Go's \<open>(value, error)\<close> pairs do.
  Every call the package makes to a collaborator is recorded, with its arguments and
  its result, in the order it is made.
\<close>

subsection \<open>Contexts and errors\<close>

text \<open>
  A \<open>context.Context\<close> is seen through its \<open>Err()\<close> only: \<open>None\<close> while it is live,
  the reason once it is done. The package never inspects a context; it passes it on
  or drops it.
\<close>

datatype ctx_err = Canceled | DeadlineExceeded

datatype "context" = Context (Err: "ctx_err option")

definition Background :: "context" where
  "Background = Context None"

datatype error = ContextError ctx_err | OtherError string

subsection \<open>dsn.go: DSN providers\<close>

type_synonym ('w, 'a) io = "'w \<Rightarrow> (error + 'a) \<times> 'w"

text \<open>The interface \<open>FullDSNProvider\<close>: both methods.\<close>

record 'w FullDSNProvider =
  FetchDSN :: "string \<Rightarrow> ('w, string) io"
  FetchDSNWithContext :: "context \<Rightarrow> string \<Rightarrow> ('w, string) io"

text \<open>
  A value of the interface \<open>DSNProvider\<close>: its dynamic type has either \<open>FetchDSN\<close>
  alone, or \<open>FetchDSNWithContext\<close> too, which is what the type assertion in \<open>New\<close>
  tests.
\<close>

datatype 'w DSNProvider =
    Basic "string \<Rightarrow> ('w, string) io"
  | Full "'w FullDSNProvider"

text \<open>\<open>fullProvider\<close> embeds a \<open>DSNProvider\<close>; its \<open>FetchDSNWithContext\<close> ignores the context.\<close>

definition fullProvider_FetchDSNWithContext ::
  "(string \<Rightarrow> ('w, string) io) \<Rightarrow> context \<Rightarrow> string \<Rightarrow> ('w, string) io" where
  "fullProvider_FetchDSNWithContext p _ dsn = p dsn"

definition fullProvider :: "(string \<Rightarrow> ('w, string) io) \<Rightarrow> 'w FullDSNProvider" where
  "fullProvider p =
     \<lparr>FetchDSN = p, FetchDSNWithContext = fullProvider_FetchDSNWithContext p\<rparr>"

definition DSNProviderFunc :: "(string \<Rightarrow> ('w, string) io) \<Rightarrow> 'w DSNProvider" where
  "DSNProviderFunc f = Basic f"

definition DSNProviderWCFunc ::
  "(context \<Rightarrow> string \<Rightarrow> ('w, string) io) \<Rightarrow> 'w DSNProvider" where
  "DSNProviderWCFunc f =
     Full \<lparr>FetchDSN = (\<lambda>dsn. f Background dsn), FetchDSNWithContext = (\<lambda>ctx dsn. f ctx dsn)\<rparr>"

subsection \<open>The inner driver\<close>

text \<open>
  The inner \<open>driver.Driver\<close>: \<open>Open\<close> always; \<open>OpenConnector\<close> only when the driver
  implements \<open>driver.DriverContext\<close> (\<open>None\<close> otherwise); \<open>Connect\<close> is the method of
  the connectors (of type \<open>'k\<close>) that its \<open>OpenConnector\<close> returns. Connections have
  type \<open>'c\<close>.
\<close>

record ('w, 'k, 'c) driver =
  Open :: "string \<Rightarrow> ('w, 'c) io"
  OpenConnector :: "(string \<Rightarrow> ('w, 'k) io) option"
  Connect :: "'k \<Rightarrow> context \<Rightarrow> ('w, 'c) io"

subsection \<open>Recorded collaborator calls\<close>

datatype ('k, 'c) call =
    FetchDSN_call string "error + string"
  | FetchDSNWithContext_call "context" string "error + string"
  | Open_call string "error + 'c"
  | OpenConnector_call string "error + 'k"
  | Connect_call 'k "context" "error + 'c"

record ('w, 'k, 'c) world =
  env :: 'w
  calls :: "('k, 'c) call list"

text \<open>\<open>invoke f ev\<close> runs the collaborator \<open>f\<close> on the environment and records the call.\<close>

definition invoke ::
  "('w \<Rightarrow> 'r \<times> 'w) \<Rightarrow> ('r \<Rightarrow> ('k, 'c) call) \<Rightarrow> ('w, 'k, 'c) world \<Rightarrow> 'r \<times> ('w, 'k, 'c) world" where
  "invoke f ev s =
     (case f (env s) of (r, e') \<Rightarrow> (r, \<lparr>env = e', calls = calls s @ [ev r]\<rparr>))"

subsection \<open>The wrapping driver\<close>

record ('w, 'k, 'c) Driver =
  Driver :: "('w, 'k, 'c) driver"
  dsnp :: "'w FullDSNProvider"

definition New :: "('w, 'k, 'c) driver \<Rightarrow> 'w DSNProvider \<Rightarrow> ('w, 'k, 'c) Driver" where
  "New d p =
     (case p of
        Full fdsnp \<Rightarrow> \<lparr>Driver = d, dsnp = fdsnp\<rparr>
      | Basic b \<Rightarrow> \<lparr>Driver = d, dsnp = fullProvider b\<rparr>)"

definition Driver_Open ::
  "('w, 'k, 'c) Driver \<Rightarrow> string \<Rightarrow> ('w, 'k, 'c) world \<Rightarrow> (error + 'c) \<times> ('w, 'k, 'c) world" where
  "Driver_Open d dsn s =
     (case invoke (FetchDSN (dsnp d) dsn) (FetchDSN_call dsn) s of
        (Inl err, s1) \<Rightarrow> (Inl err, s1)
      | (Inr innerDSN, s1) \<Rightarrow> invoke (Open (Driver d) innerDSN) (Open_call innerDSN) s1)"

subsection \<open>Connectors\<close>

text \<open>
  A deferred function either returns Go's pair, an error or a value, or panics. The only
  panic written in the package is the unchecked type assertion in
  \<open>nativeConnector.Connect\<close>. Collaborators are taken to be non-nil.
\<close>

datatype 'a outcome = Return "error + 'a" | Panic

record ('w, 'k, 'c) dsnConnector =
  masterDSN :: string
  driver :: "('w, 'k, 'c) Driver"

definition dsnConnector_Connect ::
  "('w, 'k, 'c) dsnConnector \<Rightarrow> context \<Rightarrow> ('w, 'k, 'c) world
     \<Rightarrow> (error + 'c) \<times> ('w, 'k, 'c) world" where
  "dsnConnector_Connect c _ s = Driver_Open (dsnConnector.driver c) (dsnConnector.masterDSN c) s"

record ('w, 'k, 'c) nativeConnector =
  masterDSN :: string
  innerDSN :: string
  connector :: 'k
  driver :: "('w, 'k, 'c) Driver"

text \<open>
  \<open>nativeConnector.Connect\<close> has a pointer receiver and assigns to its fields: the
  model returns the connector after the call beside the outcome.
\<close>

definition nativeConnector_Connect ::
  "('w, 'k, 'c) nativeConnector \<Rightarrow> context \<Rightarrow> ('w, 'k, 'c) world
     \<Rightarrow> ('c outcome \<times> ('w, 'k, 'c) nativeConnector) \<times> ('w, 'k, 'c) world" where
  "nativeConnector_Connect c ctx s =
     (case invoke (FetchDSNWithContext (dsnp (driver c)) ctx (masterDSN c))
             (FetchDSNWithContext_call ctx (masterDSN c)) s of
        (Inl err, s1) \<Rightarrow> ((Return (Inl err), c), s1)
      | (Inr innerDSN', s1) \<Rightarrow>
          (case
             (if innerDSN' \<noteq> innerDSN c then
                (case OpenConnector (Driver (driver c)) of
                   None \<Rightarrow> Inl (Panic, s1)
                 | Some driverCtx_OpenConnector \<Rightarrow>
                     (case invoke (driverCtx_OpenConnector innerDSN')
                             (OpenConnector_call innerDSN') s1 of
                        (Inl err, s2) \<Rightarrow> Inl (Return (Inl err), s2)
                      | (Inr conn, s2) \<Rightarrow>
                          Inr (c\<lparr>connector := conn, innerDSN := innerDSN'\<rparr>, s2)))
              else Inr (c, s1))
           of
             Inl (early, s2) \<Rightarrow> ((early, c), s2)
           | Inr (c', s2) \<Rightarrow>
               (case invoke (Connect (Driver (driver c')) (connector c') ctx)
                       (Connect_call (connector c') ctx) s2 of
                  (r, s3) \<Rightarrow> ((Return r, c'), s3))))"

text \<open>The interface \<open>driver.Connector\<close>, as this package implements it.\<close>

datatype ('w, 'k, 'c) Connector =
    Dsn "('w, 'k, 'c) dsnConnector"
  | Native "('w, 'k, 'c) nativeConnector"

definition Connector_Connect ::
  "('w, 'k, 'c) Connector \<Rightarrow> context \<Rightarrow> ('w, 'k, 'c) world
     \<Rightarrow> ('c outcome \<times> ('w, 'k, 'c) Connector) \<times> ('w, 'k, 'c) world" where
  "Connector_Connect k ctx s =
     (case k of
        Dsn c \<Rightarrow> (case dsnConnector_Connect c ctx s of (r, s') \<Rightarrow> ((Return r, Dsn c), s'))
      | Native c \<Rightarrow>
          (case nativeConnector_Connect c ctx s of ((r, c'), s') \<Rightarrow> ((r, Native c'), s')))"

definition Driver_OpenConnector ::
  "('w, 'k, 'c) Driver \<Rightarrow> string \<Rightarrow> ('w, 'k, 'c) world
     \<Rightarrow> (error + ('w, 'k, 'c) Connector) \<times> ('w, 'k, 'c) world" where
  "Driver_OpenConnector d dsn s =
     (case OpenConnector (Driver d) of
        Some driverCtx_OpenConnector \<Rightarrow>
          (case invoke (FetchDSN (dsnp d) dsn) (FetchDSN_call dsn) s of
             (Inl err, s1) \<Rightarrow> (Inl err, s1)
           | (Inr innerDSN', s1) \<Rightarrow>
               (case invoke (driverCtx_OpenConnector innerDSN') (OpenConnector_call innerDSN') s1 of
                  (Inl err, s2) \<Rightarrow> (Inl err, s2)
                | (Inr connector', s2) \<Rightarrow>
                    (Inr (Native \<lparr>masterDSN = dsn, innerDSN = innerDSN',
                                   connector = connector', driver = d\<rparr>), s2)))
      | None \<Rightarrow>
          (Inr (Dsn \<lparr>dsnConnector.masterDSN = dsn, dsnConnector.driver = d\<rparr>), s))"

subsection \<open>Observations on the recorded calls\<close>

text \<open>The calls recorded between the world \<open>s\<close> and a later world \<open>s'\<close>.\<close>

definition new_calls :: "('w, 'k, 'c) world \<Rightarrow> ('w, 'k, 'c) world \<Rightarrow> ('k, 'c) call list" where
  "new_calls s s' = drop (length (calls s)) (calls s')"

fun is_OpenConnector_call :: "('k, 'c) call \<Rightarrow> bool" where
  "is_OpenConnector_call (OpenConnector_call _ _) = True"
| "is_OpenConnector_call _ = False"

fun is_Connect_call :: "('k, 'c) call \<Rightarrow> bool" where
  "is_Connect_call (Connect_call _ _ _) = True"
| "is_Connect_call _ = False"

text \<open>The calls that are handed a context.\<close>

fun carries_context :: "('k, 'c) call \<Rightarrow> bool" where
  "carries_context (FetchDSNWithContext_call _ _ _) = True"
| "carries_context (Connect_call _ _ _) = True"
| "carries_context _ = False"

text \<open>The strings a call hands to the inner driver, and the DSNs a call to the provider returns.\<close>

fun passed :: "('k, 'c) call \<Rightarrow> string list" where
  "passed (Open_call dsn _) = [dsn]"
| "passed (OpenConnector_call dsn _) = [dsn]"
| "passed _ = []"

fun fetched :: "('k, 'c) call \<Rightarrow> string list" where
  "fetched (FetchDSN_call _ (Inr dsn)) = [dsn]"
| "fetched (FetchDSNWithContext_call _ _ (Inr dsn)) = [dsn]"
| "fetched _ = []"

text \<open>
  \<open>only_fetched seen cs\<close>: every string that a call of \<open>cs\<close> hands to the inner driver
  was returned by the provider in an earlier call of \<open>cs\<close>, or is in \<open>seen\<close>.
\<close>

fun only_fetched :: "string list \<Rightarrow> ('k, 'c) call list \<Rightarrow> bool" where
  "only_fetched seen [] = True"
| "only_fetched seen (x # xs) =
     (list_all (\<lambda>dsn. dsn \<in> set seen) (passed x) \<and> only_fetched (fetched x @ seen) xs)"

text \<open>\<open>never_passed m cs\<close>: no call of \<open>cs\<close> hands the string \<open>m\<close> to the inner driver.\<close>

definition never_passed :: "string \<Rightarrow> ('k, 'c) call list \<Rightarrow> bool" where
  "never_passed m cs = list_all (\<lambda>x. m \<notin> set (passed x)) cs"

text \<open>What one \<open>Connect\<close> of a \<open>nativeConnector\<close> does, read off its result.\<close>

definition resolved ::
  "('w, 'k, 'c) nativeConnector \<Rightarrow> context \<Rightarrow> ('w, 'k, 'c) world \<Rightarrow> error + string" where
  "resolved c ctx s = fst (FetchDSNWithContext (dsnp (driver c)) ctx (masterDSN c) (env s))"

definition fetch_env ::
  "('w, 'k, 'c) nativeConnector \<Rightarrow> context \<Rightarrow> ('w, 'k, 'c) world \<Rightarrow> 'w" where
  "fetch_env c ctx s = snd (FetchDSNWithContext (dsnp (driver c)) ctx (masterDSN c) (env s))"

definition Connect_calls ::
  "('w, 'k, 'c) nativeConnector \<Rightarrow> context \<Rightarrow> ('w, 'k, 'c) world \<Rightarrow> ('k, 'c) call list" where
  "Connect_calls c ctx s = new_calls s (snd (nativeConnector_Connect c ctx s))"

definition rebuilds ::
  "('w, 'k, 'c) nativeConnector \<Rightarrow> context \<Rightarrow> ('w, 'k, 'c) world \<Rightarrow> ('k, 'c) call list" where
  "rebuilds c ctx s = filter is_OpenConnector_call (Connect_calls c ctx s)"



text \<open>
  The cached pair is consistent in a world when the recorded calls hold a successful
  \<open>OpenConnector\<close> of the inner driver on the cached DSN that returned the cached connector.
\<close>

definition consistent :: "('w, 'k, 'c) nativeConnector \<Rightarrow> ('w, 'k, 'c) world \<Rightarrow> bool" where
  "consistent c s = (OpenConnector_call (innerDSN c) (Inr (connector c)) \<in> set (calls s))"

subsection \<open>Interleaved \<open>Connect\<close> calls on one \<open>nativeConnector\<close>\<close>

text \<open>
  \<open>database/sql\<close> may call \<open>Connect\<close> on one connector from several goroutines. The
  connector has the four fields above and nothing that locks, so the statements of the
  calls interleave. A goroutine inside \<open>nativeConnector.Connect\<close> is at one of its
  statements, named by the source line, holding the locals assigned so far
  (\<open>innerDSN\<close>, then \<open>conn\<close>); each statement, a call to a collaborator included, is one
  step on the shared connector and world. Steps finer than a statement would only add
  interleavings.
\<close>

datatype ('k, 'c) point =
    L107
  | L113 string
  | L115 string
  | L121 string 'k
  | L122 string
  | L125
  | Returned "'c outcome"

fun Connect_step ::
  "context \<Rightarrow> ('k, 'c) point \<Rightarrow> ('w, 'k, 'c) nativeConnector \<Rightarrow> ('w, 'k, 'c) world
     \<Rightarrow> (('k, 'c) point \<times> ('w, 'k, 'c) nativeConnector) \<times> ('w, 'k, 'c) world" where
  "Connect_step ctx L107 c s =
     (case invoke (FetchDSNWithContext (dsnp (driver c)) ctx (masterDSN c))
             (FetchDSNWithContext_call ctx (masterDSN c)) s of
        (Inl err, s1) \<Rightarrow> ((Returned (Return (Inl err)), c), s1)
      | (Inr innerDSN', s1) \<Rightarrow> ((L113 innerDSN', c), s1))"
| "Connect_step ctx (L113 innerDSN') c s =
     (if innerDSN' \<noteq> innerDSN c then ((L115 innerDSN', c), s) else ((L125, c), s))"
| "Connect_step ctx (L115 innerDSN') c s =
     (case OpenConnector (Driver (driver c)) of
        None \<Rightarrow> ((Returned Panic, c), s)
      | Some driverCtx_OpenConnector \<Rightarrow>
          (case invoke (driverCtx_OpenConnector innerDSN') (OpenConnector_call innerDSN') s of
             (Inl err, s2) \<Rightarrow> ((Returned (Return (Inl err)), c), s2)
           | (Inr conn, s2) \<Rightarrow> ((L121 innerDSN' conn, c), s2)))"
| "Connect_step ctx (L121 innerDSN' conn) c s = ((L122 innerDSN', c\<lparr>connector := conn\<rparr>), s)"
| "Connect_step ctx (L122 innerDSN') c s = ((L125, c\<lparr>innerDSN := innerDSN'\<rparr>), s)"
| "Connect_step ctx L125 c s =
     (case invoke (Connect (Driver (driver c)) (connector c) ctx)
             (Connect_call (connector c) ctx) s of
        (r, s3) \<Rightarrow> ((Returned (Return r), c), s3))"
| "Connect_step ctx (Returned r) c s = ((Returned r, c), s)"

text \<open>
  A configuration: the goroutines, each with the context of its call and its point, the
  connector they share, and the world. \<open>run\<close> takes the steps a schedule names, one
  goroutine (by its index) at a time; an index that names no goroutine is skipped.
\<close>

type_synonym ('w, 'k, 'c) config =
  "(context \<times> ('k, 'c) point) list \<times> ('w, 'k, 'c) nativeConnector \<times> ('w, 'k, 'c) world"

fun run :: "nat list \<Rightarrow> ('w, 'k, 'c) config \<Rightarrow> ('w, 'k, 'c) config" where
  "run [] cf = cf"
| "run (i # is) (gs, c, s) =
     (if i < length gs then
        (case Connect_step (fst (gs ! i)) (snd (gs ! i)) c s of
           ((p, c'), s') \<Rightarrow> run is (gs[i := (fst (gs ! i), p)], c', s'))
      else run is (gs, c, s))"

text \<open>
  A goroutine is inside the read-compare-write of \<open>(innerDSN, connector)\<close> from the
  comparison on line 113 to the read of \<open>c.connector\<close> on line 125. Calls are serialized
  on it when at most one goroutine is inside.
\<close>

fun inside :: "('k, 'c) point \<Rightarrow> bool" where
  "inside L107 = False"
| "inside (Returned _) = False"
| "inside _ = True"

definition exclusive :: "(context \<times> ('k, 'c) point) list \<Rightarrow> bool" where
  "exclusive gs = (length (filter (\<lambda>g. inside (snd g)) gs) \<le> 1)"

subsection \<open>Concrete collaborators\<close>

text \<open>
  A provider that answers from a script, one entry per call, whatever the master DSN:
  the environment is the rest of the script.
\<close>

definition scripted :: "string \<Rightarrow> ((error + string) list, string) io" where
  "scripted dsn w =
     (case w of [] \<Rightarrow> (Inl (OtherError ''script exhausted''), []) | r # rs \<Rightarrow> (r, rs))"

text \<open>The same with a context: a done context fails with its reason and leaves the script.\<close>

definition scripted_ctx :: "context \<Rightarrow> string \<Rightarrow> ((error + string) list, string) io" where
  "scripted_ctx ctx dsn w =
     (case Err ctx of Some e \<Rightarrow> (Inl (ContextError e), w) | None \<Rightarrow> scripted dsn w)"

text \<open>The provider of the package documentation: it returns the DSN it is given.\<close>

definition same_dsn :: "string \<Rightarrow> ('w, string) io" where
  "same_dsn dsn w = (Inr dsn, w)"

text \<open>
  An inner driver whose connectors and connections are named by the DSN they were made
  from; it refuses the DSN \<open>''bad''\<close>, and its connectors fail on a done context with the
  context's reason. With and without \<open>driver.DriverContext\<close>.
\<close>

definition parse_dsn :: "string \<Rightarrow> ('w, string) io" where
  "parse_dsn dsn w = (if dsn = ''bad'' then (Inl (OtherError ''bad dsn''), w) else (Inr dsn, w))"

definition connect_named :: "string \<Rightarrow> context \<Rightarrow> ('w, string) io" where
  "connect_named k ctx w =
     (case Err ctx of Some e \<Rightarrow> (Inl (ContextError e), w) | None \<Rightarrow> (Inr k, w))"

definition ctx_driver :: "('w, string, string) driver" where
  "ctx_driver = \<lparr>Open = parse_dsn, OpenConnector = Some parse_dsn, Connect = connect_named\<rparr>"

definition plain_driver :: "('w, string, string) driver" where
  "plain_driver = \<lparr>Open = parse_dsn, OpenConnector = None, Connect = connect_named\<rparr>"

definition world0 :: "'w \<Rightarrow> ('w, string, string) world" where
  "world0 w = \<lparr>env = w, calls = []\<rparr>"

text \<open>
  Wrapping drivers as \<open>New\<close> makes them: one over the inner driver with
  \<open>driver.DriverContext\<close> and the scripted provider that takes a context, one over the
  plain inner driver and the provider of the package documentation.
\<close>

definition ctx_d :: "((error + string) list, string, string) Driver" where
  "ctx_d = New ctx_driver (DSNProviderWCFunc scripted_ctx)"

definition plain_d :: "(unit, string, string) Driver" where
  "plain_d = New plain_driver (DSNProviderFunc same_dsn)"

text \<open>The same inner driver behind a provider without \<open>FetchDSNWithContext\<close>.\<close>

definition basic_d :: "((error + string) list, string, string) Driver" where
  "basic_d = New ctx_driver (DSNProviderFunc scripted)"

text \<open>The plain inner driver behind the scripted provider.\<close>

definition script_d :: "((error + string) list, string, string) Driver" where
  "script_d = New plain_driver (DSNProviderFunc scripted)"

text \<open>A \<open>nativeConnector\<close> as \<open>OpenConnector\<close> leaves it once \<open>''master''\<close> resolved to \<open>''dsnA''\<close>.\<close>

definition cA :: "((error + string) list, string, string) nativeConnector" where
  "cA = \<lparr>masterDSN = ''master'', innerDSN = ''dsnA'', connector = ''dsnA'', driver = ctx_d\<rparr>"

text \<open>The world \<open>OpenConnector\<close> leaves with it, the provider's next answer being \<open>''dsnB''\<close>.\<close>

definition sA :: "((error + string) list, string, string) world" where
  "sA = \<lparr>env = [Inr ''dsnB''],
         calls = [FetchDSN_call ''master'' (Inr ''dsnA''),
                  OpenConnector_call ''dsnA'' (Inr ''dsnA'')]\<rparr>"

text \<open>
  Two goroutines about to call \<open>Connect\<close> on \<open>cA\<close>, in the world \<open>OpenConnector\<close> left,
  with the provider's next two answers: the old DSN then the new one, or the new one twice.
\<close>

definition two :: "(context \<times> (string, string) point) list" where
  "two = [(Background, L107), (Background, L107)]"

definition sAB :: "((error + string) list, string, string) world" where
  "sAB = \<lparr>env = [Inr ''dsnA'', Inr ''dsnB''],
          calls = [FetchDSN_call ''master'' (Inr ''dsnA''),
                   OpenConnector_call ''dsnA'' (Inr ''dsnA'')]\<rparr>"

definition sBB :: "((error + string) list, string, string) world" where
  "sBB = \<lparr>env = [Inr ''dsnB'', Inr ''dsnB''],
          calls = [FetchDSN_call ''master'' (Inr ''dsnA''),
                   OpenConnector_call ''dsnA'' (Inr ''dsnA'')]\<rparr>"

text \<open>The same world, the provider's next answers being a second DSN, then a third.\<close>

definition sBC :: "((error + string) list, string, string) world" where
  "sBC = \<lparr>env = [Inr ''dsnB'', Inr ''dsnC'', Inr ''dsnC'', Inr ''dsnC''],
          calls = [FetchDSN_call ''master'' (Inr ''dsnA''),
                   OpenConnector_call ''dsnA'' (Inr ''dsnA'')]\<rparr>"

text \<open>The plain inner driver behind the scripted provider that takes a context.\<close>

definition wc_plain_d :: "((error + string) list, string, string) Driver" where
  "wc_plain_d = New plain_driver (DSNProviderWCFunc scripted_ctx)"

definition canceled :: "context" where
  "canceled = Context (Some Canceled)"

section \<open>Auxiliary facts\<close>

lemma invoke_eq:
  "invoke f ev s =
     (fst (f (env s)), \<lparr>env = snd (f (env s)), calls = calls s @ [ev (fst (f (env s)))]\<rparr>)"
  by (simp add: invoke_def split: prod.splits)

lemma new_calls_append [simp]: "new_calls s \<lparr>env = e, calls = calls s @ xs\<rparr> = xs"
  by (simp add: new_calls_def)

subsection \<open>The ways through \<open>Driver.Open\<close> and \<open>nativeConnector.Connect\<close>\<close>

lemma Driver_Open_eq:
  "Driver_Open d dsn s =
    (case fst (FetchDSN (dsnp d) dsn (env s)) of
       Inl err \<Rightarrow> (Inl err, \<lparr>env = snd (FetchDSN (dsnp d) dsn (env s)),
                               calls = calls s @ [FetchDSN_call dsn (Inl err)]\<rparr>)
     | Inr x \<Rightarrow> (fst (Open (Driver d) x (snd (FetchDSN (dsnp d) dsn (env s)))),
                 \<lparr>env = snd (Open (Driver d) x (snd (FetchDSN (dsnp d) dsn (env s)))),
                  calls = calls s @ [FetchDSN_call dsn (Inr x),
                     Open_call x (fst (Open (Driver d) x (snd (FetchDSN (dsnp d) dsn (env s)))))]\<rparr>))"
  by (simp add: Driver_Open_def invoke_eq split: sum.splits)

lemma Connect_fetch_error:
  assumes "resolved c ctx s = Inl err"
  shows "nativeConnector_Connect c ctx s =
     ((Return (Inl err), c),
      \<lparr>env = fetch_env c ctx s,
       calls = calls s @ [FetchDSNWithContext_call ctx (masterDSN c) (Inl err)]\<rparr>)"
  using assms by (simp add: nativeConnector_Connect_def invoke_eq resolved_def fetch_env_def)

lemma Connect_same:
  assumes "resolved c ctx s = Inr (innerDSN c)"
  shows "nativeConnector_Connect c ctx s =
     ((Return (fst (Connect (Driver (driver c)) (connector c) ctx (fetch_env c ctx s))), c),
      \<lparr>env = snd (Connect (Driver (driver c)) (connector c) ctx (fetch_env c ctx s)),
       calls = calls s @
         [FetchDSNWithContext_call ctx (masterDSN c) (Inr (innerDSN c)),
          Connect_call (connector c) ctx
            (fst (Connect (Driver (driver c)) (connector c) ctx (fetch_env c ctx s)))]\<rparr>)"
  using assms by (simp add: nativeConnector_Connect_def invoke_eq resolved_def fetch_env_def)

lemma Connect_panic:
  assumes "resolved c ctx s = Inr d" and "d \<noteq> innerDSN c"
    and "OpenConnector (Driver (driver c)) = None"
  shows "nativeConnector_Connect c ctx s =
     ((Panic, c),
      \<lparr>env = fetch_env c ctx s,
       calls = calls s @ [FetchDSNWithContext_call ctx (masterDSN c) (Inr d)]\<rparr>)"
  using assms by (simp add: nativeConnector_Connect_def invoke_eq resolved_def fetch_env_def)

lemma Connect_rebuild_error:
  assumes "resolved c ctx s = Inr d" and "d \<noteq> innerDSN c"
    and "OpenConnector (Driver (driver c)) = Some oc"
    and "fst (oc d (fetch_env c ctx s)) = Inl err"
  shows "nativeConnector_Connect c ctx s =
     ((Return (Inl err), c),
      \<lparr>env = snd (oc d (fetch_env c ctx s)),
       calls = calls s @ [FetchDSNWithContext_call ctx (masterDSN c) (Inr d),
                          OpenConnector_call d (Inl err)]\<rparr>)"
  using assms by (simp add: nativeConnector_Connect_def invoke_eq resolved_def fetch_env_def)

lemma Connect_rebuild_ok:
  assumes "resolved c ctx s = Inr d" and "d \<noteq> innerDSN c"
    and "OpenConnector (Driver (driver c)) = Some oc"
    and "fst (oc d (fetch_env c ctx s)) = Inr k"
  shows "nativeConnector_Connect c ctx s =
     ((Return (fst (Connect (Driver (driver c)) k ctx (snd (oc d (fetch_env c ctx s))))),
       c\<lparr>connector := k, innerDSN := d\<rparr>),
      \<lparr>env = snd (Connect (Driver (driver c)) k ctx (snd (oc d (fetch_env c ctx s)))),
       calls = calls s @
         [FetchDSNWithContext_call ctx (masterDSN c) (Inr d),
          OpenConnector_call d (Inr k),
          Connect_call k ctx
            (fst (Connect (Driver (driver c)) k ctx (snd (oc d (fetch_env c ctx s)))))]\<rparr>)"
  using assms by (simp add: nativeConnector_Connect_def invoke_eq resolved_def fetch_env_def)


subsection \<open>One call rebuilds at most once, and only on a changed DSN\<close>


subsection \<open>The cached pair\<close>

lemma Driver_OpenConnector_Native:
  assumes "Driver_OpenConnector d dsn s = (Inr (Native c), s')"
  shows "calls s' = calls s @ [FetchDSN_call dsn (Inr (innerDSN c)),
                               OpenConnector_call (innerDSN c) (Inr (connector c))]
     \<and> masterDSN c = dsn \<and> driver c = d"
  using assms
  by (auto simp add: Driver_OpenConnector_def invoke_eq split: option.splits sum.splits)

lemma Connect_keeps_consistent:
  assumes "consistent c s"
  shows "consistent (snd (fst (nativeConnector_Connect c ctx s)))
           (snd (nativeConnector_Connect c ctx s))"
  using assms
  by (simp add: consistent_def nativeConnector_Connect_def invoke_eq
      split: sum.splits option.splits)

lemma rebuilds_at_most_one: "length (rebuilds c ctx s) \<le> 1"
  by (simp add: rebuilds_def Connect_calls_def nativeConnector_Connect_def invoke_eq
      split: sum.splits option.splits)

lemma Connect_only_fetched: "only_fetched [] (Connect_calls c ctx s)"
  by (simp add: Connect_calls_def nativeConnector_Connect_def invoke_eq
      split: sum.splits option.splits)

subsection \<open>A call that no other call interleaves\<close>

lemma run_alone:
  assumes "i < length gs" and "gs ! i = (ctx, L107)"
  shows "run [i, i, i, i, i, i] (gs, c, s) =
    (gs[i := (ctx, Returned (fst (fst (nativeConnector_Connect c ctx s))))],
     snd (fst (nativeConnector_Connect c ctx s)), snd (nativeConnector_Connect c ctx s))"
proof (cases "resolved c ctx s")
  case (Inl err)
  with assms show ?thesis
    by (simp add: Connect_fetch_error) (simp add: invoke_eq resolved_def fetch_env_def)
next
  case (Inr d)
  show ?thesis
  proof (cases "d = innerDSN c")
    case True
    with Inr assms show ?thesis
      by (simp add: Connect_same) (simp add: invoke_eq resolved_def fetch_env_def)
  next
    case False
    show ?thesis
    proof (cases "OpenConnector (Driver (driver c))")
      case None
      with Inr False assms show ?thesis
        by (simp add: Connect_panic) (simp add: invoke_eq resolved_def fetch_env_def)
    next
      case (Some oc)
      show ?thesis
      proof (cases "fst (oc d (fetch_env c ctx s))")
        case (Inl err)
        with Inr False Some assms show ?thesis
          by (simp add: Connect_rebuild_error) (simp add: invoke_eq resolved_def fetch_env_def)
      next
        case (Inr k)
        with \<open>resolved c ctx s = Inr d\<close> False Some assms show ?thesis
          by (simp add: Connect_rebuild_ok) (simp add: invoke_eq resolved_def fetch_env_def)
      qed
    qed
  qed
qed

section \<open>Properties\<close>



text \<open>
  C2. When the provider's \<open>FetchDSNWithContext\<close> returns an error to a \<open>Connect\<close> of a
  \<open>nativeConnector\<close>, the call returns exactly that error and no connection, the
  connector (its \<open>innerDSN\<close> and \<open>connector\<close> with it) is what it was before the call,
  and the fetch is the only call made.
\<close>

theorem resolve_error_returned:
  assumes "resolved c ctx s = Inl err"
  shows "fst (nativeConnector_Connect c ctx s) = (Return (Inl err), c)
     \<and> Connect_calls c ctx s = [FetchDSNWithContext_call ctx (masterDSN c) (Inl err)]"
  using assms by (simp add: Connect_calls_def Connect_fetch_error)

theorem resolve_error_returned_witness:
  "resolved cA Background (world0 [Inl (OtherError ''vault down'')]) = Inl (OtherError ''vault down'')
   \<and> fst (nativeConnector_Connect cA Background (world0 [Inl (OtherError ''vault down'')])) =
       (Return (Inl (OtherError ''vault down'')), cA)
   \<and> Connect_calls cA Background (world0 [Inl (OtherError ''vault down'')]) =
       [FetchDSNWithContext_call Background ''master'' (Inl (OtherError ''vault down''))]"
proof -
  have h: "resolved cA Background (world0 [Inl (OtherError ''vault down'')]) =
             Inl (OtherError ''vault down'')"
    by (simp add: resolved_def cA_def ctx_d_def New_def DSNProviderWCFunc_def scripted_ctx_def
        scripted_def
        ctx_driver_def parse_dsn_def connect_named_def world0_def Background_def)
  have m: "masterDSN cA = ''master''" by (simp add: cA_def)
  from h resolve_error_returned [OF h] m show ?thesis by simp
qed

text \<open>
  C3. When the provider returns a DSN that differs from the cached one and the inner
  driver's \<open>OpenConnector\<close> fails on it, \<open>Connect\<close> returns that error and the connector
  keeps its \<open>innerDSN\<close> and \<open>connector\<close>; a later \<open>Connect\<close> on it to which the provider
  returns the same DSN calls the inner driver's \<open>OpenConnector\<close> on that DSN again.
\<close>

theorem construction_error_keeps_cache:
  assumes "OpenConnector (Driver (driver c)) = Some oc"
    and "resolved c ctx s = Inr d" and "d \<noteq> innerDSN c"
    and "fst (oc d (fetch_env c ctx s)) = Inl err"
    and "nativeConnector_Connect c ctx s = ((r, c'), s')"
    and "resolved c' ctx2 s2 = Inr d"
  shows "r = Return (Inl err) \<and> c' = c
     \<and> rebuilds c' ctx2 s2 = [OpenConnector_call d (fst (oc d (fetch_env c' ctx2 s2)))]"
proof -
  have first: "r = Return (Inl err) \<and> c' = c"
    using assms(1-5) by (simp add: Connect_rebuild_error)
  have again: "rebuilds c ctx2 s2 = [OpenConnector_call d (fst (oc d (fetch_env c ctx2 s2)))]"
  proof (cases "fst (oc d (fetch_env c ctx2 s2))")
    case (Inl e2)
    with assms(1,3,6) first show ?thesis
      by (simp add: rebuilds_def Connect_calls_def Connect_rebuild_error)
  next
    case (Inr k)
    with assms(1,3,6) first show ?thesis
      by (simp add: rebuilds_def Connect_calls_def Connect_rebuild_ok)
  qed
  from first again show ?thesis by simp
qed

text \<open>The provider returns \<open>''bad''\<close> twice, which the inner driver refuses twice.\<close>

theorem construction_error_keeps_cache_witness:
  "nativeConnector_Connect cA Background (world0 [Inr ''bad'', Inr ''bad'']) =
     ((Return (Inl (OtherError ''bad dsn'')), cA),
      \<lparr>env = [Inr ''bad''],
       calls = [FetchDSNWithContext_call Background ''master'' (Inr ''bad''),
                OpenConnector_call ''bad'' (Inl (OtherError ''bad dsn''))]\<rparr>)
   \<and> rebuilds cA Background
        \<lparr>env = [Inr ''bad''],
         calls = [FetchDSNWithContext_call Background ''master'' (Inr ''bad''),
                  OpenConnector_call ''bad'' (Inl (OtherError ''bad dsn''))]\<rparr> =
      [OpenConnector_call ''bad'' (Inl (OtherError ''bad dsn''))]"
proof -
  let ?s = "world0 [Inr ''bad'', Inr ''bad''] :: ((error + string) list, string, string) world"
  let ?s' = "\<lparr>env = [Inr ''bad''],
       calls = [FetchDSNWithContext_call Background ''master'' (Inr ''bad''),
                OpenConnector_call ''bad'' (Inl (OtherError ''bad dsn''))]\<rparr>
       :: ((error + string) list, string, string) world"
  have h1: "OpenConnector (Driver (driver cA)) = Some parse_dsn"
    by (simp add: cA_def ctx_d_def New_def DSNProviderWCFunc_def scripted_ctx_def scripted_def
        ctx_driver_def parse_dsn_def connect_named_def world0_def Background_def)
  have h2: "resolved cA Background ?s = Inr ''bad''"
    by (simp add: resolved_def cA_def ctx_d_def New_def DSNProviderWCFunc_def scripted_ctx_def
        scripted_def
        ctx_driver_def parse_dsn_def connect_named_def world0_def Background_def)
  have h3: "''bad'' \<noteq> innerDSN cA"
    by (simp add: cA_def)
  have h4: "fst (parse_dsn ''bad'' (fetch_env cA Background ?s)) = Inl (OtherError ''bad dsn'')"
    by (simp add: parse_dsn_def)
  have h5: "nativeConnector_Connect cA Background ?s =
              ((Return (Inl (OtherError ''bad dsn'')), cA), ?s')"
    by (simp add: cA_def ctx_d_def New_def DSNProviderWCFunc_def scripted_ctx_def scripted_def
        ctx_driver_def parse_dsn_def connect_named_def world0_def Background_def
        nativeConnector_Connect_def invoke_eq)
  have h6: "resolved cA Background ?s' = Inr ''bad''"
    by (simp add: resolved_def cA_def ctx_d_def New_def DSNProviderWCFunc_def scripted_ctx_def
        scripted_def
        ctx_driver_def parse_dsn_def connect_named_def world0_def Background_def)
  have "rebuilds cA Background ?s' =
          [OpenConnector_call ''bad'' (fst (parse_dsn ''bad'' (fetch_env cA Background ?s')))]"
    using construction_error_keeps_cache [OF h1 h2 h3 h4 h5 h6] by simp
  then have "rebuilds cA Background ?s' = [OpenConnector_call ''bad'' (Inl (OtherError ''bad dsn''))]"
    by (simp add: parse_dsn_def)
  with h5 show ?thesis by simp
qed

text \<open>
  C4 (refuted). \<open>Connect\<close> calls on one \<open>nativeConnector\<close> are not serialized. From a
  consistent pair, goroutine 1 fetches the old DSN, then goroutine 0 fetches the new one,
  compares, builds the new connector and assigns \<open>c.connector\<close>: both goroutines are
  inside the read-compare-write, and the shared pair is torn (\<open>innerDSN\<close> still the old
  DSN, \<open>connector\<close> already the new one). Goroutine 1 then compares its old DSN with the
  old \<open>innerDSN\<close>, finds them equal, and connects through the connector built for the new
  DSN. And when both goroutines fetch the new DSN and compare before either assigns, both
  build a connector.
\<close>

theorem Connect_not_serialized_counterexample:
  "consistent cA sAB
   \<and> (case run [1, 0, 0, 0, 0] (two, cA, sAB) of
        (gs, c, s) \<Rightarrow>
          map snd gs = [L122 ''dsnB'', L113 ''dsnA''] \<and> \<not> exclusive gs
          \<and> innerDSN c = ''dsnA'' \<and> connector c = ''dsnB'' \<and> \<not> consistent c s)
   \<and> (case run [1, 0, 0, 0, 0, 1, 1] (two, cA, sAB) of
        (gs, c, s) \<Rightarrow> map snd gs = [L122 ''dsnB'', Returned (Return (Inr ''dsnB''))])
   \<and> (case run [0, 1, 0, 1, 0, 1, 0, 1, 0, 1, 0, 1] (two, cA, sBB) of
        (gs, c, s) \<Rightarrow>
          filter is_OpenConnector_call (new_calls sBB s) =
            [OpenConnector_call ''dsnB'' (Inr ''dsnB''), OpenConnector_call ''dsnB'' (Inr ''dsnB'')])"
proof -
  have a: "consistent cA sAB"
    by (simp add: consistent_def cA_def ctx_d_def New_def DSNProviderWCFunc_def
        scripted_ctx_def scripted_def
        ctx_driver_def parse_dsn_def connect_named_def world0_def Background_def two_def
        sAB_def sBB_def)
  have b: "run [1, 0, 0, 0, 0] (two, cA, sAB) =
     ([(Background, L122 ''dsnB''), (Background, L113 ''dsnA'')],
      cA\<lparr>connector := ''dsnB''\<rparr>,
      \<lparr>env = [],
       calls = calls sAB @
         [FetchDSNWithContext_call Background ''master'' (Inr ''dsnA''),
          FetchDSNWithContext_call Background ''master'' (Inr ''dsnB''),
          OpenConnector_call ''dsnB'' (Inr ''dsnB'')]\<rparr>)"
    by (simp add: invoke_eq cA_def ctx_d_def New_def DSNProviderWCFunc_def scripted_ctx_def
        scripted_def
        ctx_driver_def parse_dsn_def connect_named_def world0_def Background_def two_def
        sAB_def sBB_def)
  have c: "run [1, 0, 0, 0, 0, 1, 1] (two, cA, sAB) =
     ([(Background, L122 ''dsnB''), (Background, Returned (Return (Inr ''dsnB'')))],
      cA\<lparr>connector := ''dsnB''\<rparr>,
      \<lparr>env = [],
       calls = calls sAB @
         [FetchDSNWithContext_call Background ''master'' (Inr ''dsnA''),
          FetchDSNWithContext_call Background ''master'' (Inr ''dsnB''),
          OpenConnector_call ''dsnB'' (Inr ''dsnB''),
          Connect_call ''dsnB'' Background (Inr ''dsnB'')]\<rparr>)"
    by (simp add: invoke_eq cA_def ctx_d_def New_def DSNProviderWCFunc_def scripted_ctx_def
        scripted_def
        ctx_driver_def parse_dsn_def connect_named_def world0_def Background_def two_def
        sAB_def sBB_def)
  have d: "run [0, 1, 0, 1, 0, 1, 0, 1, 0, 1, 0, 1] (two, cA, sBB) =
     ([(Background, Returned (Return (Inr ''dsnB''))),
       (Background, Returned (Return (Inr ''dsnB'')))],
      cA\<lparr>connector := ''dsnB'', innerDSN := ''dsnB''\<rparr>,
      \<lparr>env = [],
       calls = calls sBB @
         [FetchDSNWithContext_call Background ''master'' (Inr ''dsnB''),
          FetchDSNWithContext_call Background ''master'' (Inr ''dsnB''),
          OpenConnector_call ''dsnB'' (Inr ''dsnB''),
          OpenConnector_call ''dsnB'' (Inr ''dsnB''),
          Connect_call ''dsnB'' Background (Inr ''dsnB''),
          Connect_call ''dsnB'' Background (Inr ''dsnB'')]\<rparr>)"
    by (simp add: invoke_eq cA_def ctx_d_def New_def DSNProviderWCFunc_def scripted_ctx_def
        scripted_def
        ctx_driver_def parse_dsn_def connect_named_def world0_def Background_def two_def
        sAB_def sBB_def)
  have torn: "\<not> consistent (cA\<lparr>connector := ''dsnB''\<rparr>)
      \<lparr>env = [],
       calls = calls sAB @
         [FetchDSNWithContext_call Background ''master'' (Inr ''dsnA''),
          FetchDSNWithContext_call Background ''master'' (Inr ''dsnB''),
          OpenConnector_call ''dsnB'' (Inr ''dsnB'')]\<rparr>"
    by (simp add: consistent_def cA_def sAB_def)
  show ?thesis
    unfolding b c d using a torn by (simp add: exclusive_def cA_def)
qed

text \<open>
  C4 (as the code has it). Nothing in the connector makes calls wait for one another.
  A \<open>Connect\<close> that takes its steps with no step of another goroutine in between does
  what the sequential \<open>Connect\<close> does, to the shared connector, to the world and in what
  it returns; it asks the inner driver for a connector once at most, and leaves the
  cached pair consistent when it found it consistent.
\<close>

theorem Connect_alone_is_sequential:
  assumes "i < length gs" and "gs ! i = (ctx, L107)"
  shows "run [i, i, i, i, i, i] (gs, c, s) =
      (gs[i := (ctx, Returned (fst (fst (nativeConnector_Connect c ctx s))))],
       snd (fst (nativeConnector_Connect c ctx s)), snd (nativeConnector_Connect c ctx s))
     \<and> length (filter is_OpenConnector_call
          (new_calls s (snd (snd (run [i, i, i, i, i, i] (gs, c, s)))))) \<le> 1
     \<and> (consistent c s \<longrightarrow>
          consistent (fst (snd (run [i, i, i, i, i, i] (gs, c, s))))
            (snd (snd (run [i, i, i, i, i, i] (gs, c, s)))))"
  using run_alone [OF assms, of c s] Connect_keeps_consistent [of c s ctx]
    rebuilds_at_most_one [of c ctx s]
  by (simp add: rebuilds_def Connect_calls_def)

text \<open>
  The two goroutines one after the other, the provider answering with the new DSN twice:
  the first call rebuilds, the second finds the pair up to date.
\<close>

theorem Connect_alone_is_sequential_witness:
  "(0::nat) < length two \<and> two ! 0 = (Background, L107) \<and> consistent cA sBB
   \<and> run [0, 0, 0, 0, 0, 0] (two, cA, sBB) =
       ([(Background, Returned (Return (Inr ''dsnB''))), (Background, L107)],
        cA\<lparr>connector := ''dsnB'', innerDSN := ''dsnB''\<rparr>,
        \<lparr>env = [Inr ''dsnB''],
         calls = calls sBB @
           [FetchDSNWithContext_call Background ''master'' (Inr ''dsnB''),
            OpenConnector_call ''dsnB'' (Inr ''dsnB''),
            Connect_call ''dsnB'' Background (Inr ''dsnB'')]\<rparr>)
   \<and> consistent (fst (snd (run [0, 0, 0, 0, 0, 0] (two, cA, sBB))))
       (snd (snd (run [0, 0, 0, 0, 0, 0] (two, cA, sBB))))
   \<and> filter is_OpenConnector_call
       (new_calls sBB (snd (snd (run [0, 0, 0, 0, 0, 0, 1, 1, 1, 1, 1, 1] (two, cA, sBB))))) =
       [OpenConnector_call ''dsnB'' (Inr ''dsnB'')]"
proof -
  have h1: "(0::nat) < length two" by (simp add: two_def)
  have h2: "two ! 0 = (Background, L107)" by (simp add: two_def)
  have h3: "consistent cA sBB" by (simp add: consistent_def cA_def sBB_def)
  have big: "nativeConnector_Connect cA Background sBB =
       ((Return (Inr ''dsnB''), cA\<lparr>connector := ''dsnB'', innerDSN := ''dsnB''\<rparr>),
        \<lparr>env = [Inr ''dsnB''],
         calls = calls sBB @
           [FetchDSNWithContext_call Background ''master'' (Inr ''dsnB''),
            OpenConnector_call ''dsnB'' (Inr ''dsnB''),
            Connect_call ''dsnB'' Background (Inr ''dsnB'')]\<rparr>)"
    by (simp add: nativeConnector_Connect_def invoke_eq cA_def ctx_d_def New_def
        DSNProviderWCFunc_def scripted_ctx_def scripted_def
        ctx_driver_def parse_dsn_def connect_named_def world0_def Background_def two_def sBB_def)
  have upd: "two[0 := (Background, Returned (Return (Inr ''dsnB'')))] =
       [(Background, Returned (Return (Inr ''dsnB''))), (Background, L107)]"
    by (simp add: two_def)
  have both: "filter is_OpenConnector_call
       (new_calls sBB (snd (snd (run [0, 0, 0, 0, 0, 0, 1, 1, 1, 1, 1, 1] (two, cA, sBB))))) =
       [OpenConnector_call ''dsnB'' (Inr ''dsnB'')]"
    by (simp add: invoke_eq new_calls_def cA_def ctx_d_def New_def DSNProviderWCFunc_def
        scripted_ctx_def scripted_def
        ctx_driver_def parse_dsn_def connect_named_def world0_def Background_def two_def sBB_def)
  note t = Connect_alone_is_sequential [OF h1 h2, of cA sBB]
  from t big upd have r: "run [0, 0, 0, 0, 0, 0] (two, cA, sBB) =
       ([(Background, Returned (Return (Inr ''dsnB''))), (Background, L107)],
        cA\<lparr>connector := ''dsnB'', innerDSN := ''dsnB''\<rparr>,
        \<lparr>env = [Inr ''dsnB''],
         calls = calls sBB @
           [FetchDSNWithContext_call Background ''master'' (Inr ''dsnB''),
            OpenConnector_call ''dsnB'' (Inr ''dsnB''),
            Connect_call ''dsnB'' Background (Inr ''dsnB'')]\<rparr>)"
    by (simp del: run.simps)
  from t h3 have k: "consistent (fst (snd (run [0, 0, 0, 0, 0, 0] (two, cA, sBB))))
       (snd (snd (run [0, 0, 0, 0, 0, 0] (two, cA, sBB))))"
    by blast
  from h1 h2 h3 r k both show ?thesis by blast
qed

text \<open>
  C5. When the inner driver has no \<open>driver.DriverContext\<close>, \<open>OpenConnector\<close> of the
  wrapping driver calls nothing and returns a \<open>dsnConnector\<close> holding the master DSN
  and the driver. Every \<open>Connect\<close> of it is \<open>Driver.Open\<close> on the master DSN: it
  fetches the DSN from the provider and, when that succeeds, calls the inner driver's
  \<open>Open\<close> on the fetched DSN; the connector after the call is the one before it.
\<close>

theorem no_DriverContext_degenerate:
  assumes "OpenConnector (Driver d) = None"
  shows "Driver_OpenConnector d dsn s =
           (Inr (Dsn \<lparr>dsnConnector.masterDSN = dsn, dsnConnector.driver = d\<rparr>), s)
     \<and> Connector_Connect (Dsn \<lparr>dsnConnector.masterDSN = dsn, dsnConnector.driver = d\<rparr>) ctx s2 =
          ((Return (fst (Driver_Open d dsn s2)),
            Dsn \<lparr>dsnConnector.masterDSN = dsn, dsnConnector.driver = d\<rparr>),
           snd (Driver_Open d dsn s2))
     \<and> new_calls s2 (snd (Driver_Open d dsn s2)) =
          (case fst (FetchDSN (dsnp d) dsn (env s2)) of
             Inl err \<Rightarrow> [FetchDSN_call dsn (Inl err)]
           | Inr x \<Rightarrow> [FetchDSN_call dsn (Inr x),
                Open_call x (fst (Open (Driver d) x (snd (FetchDSN (dsnp d) dsn (env s2)))))])"
  using assms
  by (simp add: Driver_OpenConnector_def Connector_Connect_def dsnConnector_Connect_def
      Driver_Open_eq split: prod.splits sum.splits)

text \<open>
  Two \<open>Connect\<close> calls in a row on the connector that \<open>OpenConnector\<close> returns, with a
  provider whose answers change: each call fetches and opens, on the DSN of its own fetch.
\<close>

theorem no_DriverContext_degenerate_witness:
  "OpenConnector (Driver script_d) = None
   \<and> Driver_OpenConnector script_d ''master'' (world0 [Inr ''dsnA'', Inr ''dsnB'']) =
       (Inr (Dsn \<lparr>dsnConnector.masterDSN = ''master'', dsnConnector.driver = script_d\<rparr>),
        world0 [Inr ''dsnA'', Inr ''dsnB''])
   \<and> Connector_Connect (Dsn \<lparr>dsnConnector.masterDSN = ''master'', dsnConnector.driver = script_d\<rparr>)
        Background (world0 [Inr ''dsnA'', Inr ''dsnB'']) =
       ((Return (Inr ''dsnA''),
         Dsn \<lparr>dsnConnector.masterDSN = ''master'', dsnConnector.driver = script_d\<rparr>),
        \<lparr>env = [Inr ''dsnB''],
         calls = [FetchDSN_call ''master'' (Inr ''dsnA''), Open_call ''dsnA'' (Inr ''dsnA'')]\<rparr>)
   \<and> Connector_Connect (Dsn \<lparr>dsnConnector.masterDSN = ''master'', dsnConnector.driver = script_d\<rparr>)
        Background
        \<lparr>env = [Inr ''dsnB''],
         calls = [FetchDSN_call ''master'' (Inr ''dsnA''), Open_call ''dsnA'' (Inr ''dsnA'')]\<rparr> =
       ((Return (Inr ''dsnB''),
         Dsn \<lparr>dsnConnector.masterDSN = ''master'', dsnConnector.driver = script_d\<rparr>),
        \<lparr>env = [],
         calls = [FetchDSN_call ''master'' (Inr ''dsnA''), Open_call ''dsnA'' (Inr ''dsnA''),
                  FetchDSN_call ''master'' (Inr ''dsnB''), Open_call ''dsnB'' (Inr ''dsnB'')]\<rparr>)"
proof -
  have h: "OpenConnector (Driver script_d) = None"
    by (simp add: script_d_def New_def DSNProviderFunc_def fullProvider_def
        fullProvider_FetchDSNWithContext_def scripted_def plain_driver_def parse_dsn_def
        connect_named_def world0_def Background_def)
  have o1: "Driver_Open script_d ''master'' (world0 [Inr ''dsnA'', Inr ''dsnB'']) =
      (Inr ''dsnA'',
       \<lparr>env = [Inr ''dsnB''],
        calls = [FetchDSN_call ''master'' (Inr ''dsnA''), Open_call ''dsnA'' (Inr ''dsnA'')]\<rparr>)"
    by (simp add: Driver_Open_eq script_d_def New_def DSNProviderFunc_def fullProvider_def
        fullProvider_FetchDSNWithContext_def scripted_def plain_driver_def parse_dsn_def
        connect_named_def world0_def Background_def)
  have o2: "Driver_Open script_d ''master''
       \<lparr>env = [Inr ''dsnB''],
        calls = [FetchDSN_call ''master'' (Inr ''dsnA''), Open_call ''dsnA'' (Inr ''dsnA'')]\<rparr> =
      (Inr ''dsnB'',
        \<lparr>env = [],
         calls = [FetchDSN_call ''master'' (Inr ''dsnA''), Open_call ''dsnA'' (Inr ''dsnA''),
                  FetchDSN_call ''master'' (Inr ''dsnB''), Open_call ''dsnB'' (Inr ''dsnB'')]\<rparr>)"
    by (simp add: Driver_Open_eq script_d_def New_def DSNProviderFunc_def fullProvider_def
        fullProvider_FetchDSNWithContext_def scripted_def plain_driver_def parse_dsn_def
        connect_named_def world0_def Background_def)
  note t = no_DriverContext_degenerate [OF h, of "''master''"]
  from h t [of "world0 [Inr ''dsnA'', Inr ''dsnB'']" Background "world0 [Inr ''dsnA'', Inr ''dsnB'']"]
    t [of "world0 [Inr ''dsnA'', Inr ''dsnB'']" Background
         "\<lparr>env = [Inr ''dsnB''],
           calls = [FetchDSN_call ''master'' (Inr ''dsnA''), Open_call ''dsnA'' (Inr ''dsnA'')]\<rparr>"]
    o1 o2
  show ?thesis by simp
qed

text \<open>
  C6. \<open>New\<close> adapts a provider that has only the basic fetch with the fallback wrapper:
  for every context and every master DSN, the wrapper's \<open>FetchDSNWithContext\<close> returns
  exactly what the base \<open>FetchDSN\<close> returns on that DSN, in every environment, and its
  \<open>FetchDSN\<close> is the base one. A provider that already has \<open>FetchDSNWithContext\<close> is
  stored as it is.
\<close>

theorem New_adapts_provider:
  "FetchDSNWithContext (dsnp (New d (Basic b))) ctx dsn w = b dsn w
   \<and> FetchDSN (dsnp (New d (Basic b))) dsn w = b dsn w
   \<and> dsnp (New d (Full fdsnp)) = fdsnp
   \<and> Driver (New d p) = d"
  by (cases p) (simp_all add: New_def fullProvider_def fullProvider_FetchDSNWithContext_def)


text \<open>
  C7 (first half, refuted). The claim that the master DSN is never handed to the inner
  driver fails with the provider of the package documentation, which returns the DSN it
  is given: \<open>Driver.Open\<close> on \<open>''arn''\<close> fetches \<open>''arn''\<close> and opens the inner driver
  on it.
\<close>

theorem master_DSN_passed_counterexample:
  "new_calls (world0 ()) (snd (Driver_Open plain_d ''arn'' (world0 ()))) =
     [FetchDSN_call ''arn'' (Inr ''arn''), Open_call ''arn'' (Inr ''arn'')]
   \<and> \<not> never_passed ''arn'' (new_calls (world0 ()) (snd (Driver_Open plain_d ''arn'' (world0 ()))))"
  by (simp add: never_passed_def Driver_Open_eq new_calls_def plain_d_def New_def
      DSNProviderFunc_def fullProvider_def
      same_dsn_def plain_driver_def parse_dsn_def world0_def)

text \<open>
  C7 (as the code has it). In \<open>Driver.Open\<close>, \<open>Driver.OpenConnector\<close> and the \<open>Connect\<close>
  of both connectors, every string handed to the inner driver's \<open>Open\<close> or
  \<open>OpenConnector\<close> is a DSN that the provider returned earlier in the same operation.
  The master DSN reaches the inner driver only as such a returned DSN.
\<close>

theorem inner_driver_gets_only_fetched:
  "only_fetched [] (new_calls s (snd (Driver_Open d m s)))
   \<and> only_fetched [] (new_calls s (snd (Driver_OpenConnector d m s)))
   \<and> only_fetched [] (new_calls s (snd (dsnConnector_Connect dc ctx s)))
   \<and> only_fetched [] (Connect_calls nc ctx s)"
  by (simp add: Connect_only_fetched dsnConnector_Connect_def Driver_Open_eq
      Driver_OpenConnector_def invoke_eq new_calls_def split: sum.splits option.splits)

text \<open>
  With a provider that turns \<open>''master''\<close> into \<open>''dsnA''\<close> the inner driver is opened
  on \<open>''dsnA''\<close> and never sees \<open>''master''\<close>.
\<close>

theorem inner_driver_gets_only_fetched_witness:
  "only_fetched [] (new_calls (world0 [Inr ''dsnA'']) (snd (Driver_Open script_d ''master'' (world0 [Inr ''dsnA'']))))
   \<and> new_calls (world0 [Inr ''dsnA'']) (snd (Driver_Open script_d ''master'' (world0 [Inr ''dsnA'']))) =
       [FetchDSN_call ''master'' (Inr ''dsnA''), Open_call ''dsnA'' (Inr ''dsnA'')]
   \<and> never_passed ''master''
       (new_calls (world0 [Inr ''dsnA'']) (snd (Driver_Open script_d ''master'' (world0 [Inr ''dsnA'']))))"
proof -
  have c: "new_calls (world0 [Inr ''dsnA'']) (snd (Driver_Open script_d ''master'' (world0 [Inr ''dsnA'']))) =
       [FetchDSN_call ''master'' (Inr ''dsnA''), Open_call ''dsnA'' (Inr ''dsnA'')]"
    by (simp add: Driver_Open_eq new_calls_def script_d_def New_def DSNProviderFunc_def
        fullProvider_def
        fullProvider_FetchDSNWithContext_def scripted_def plain_driver_def parse_dsn_def
        connect_named_def world0_def Background_def)
  have "only_fetched [] (new_calls (world0 [Inr ''dsnA''])
          (snd (Driver_Open script_d ''master'' (world0 [Inr ''dsnA'']))))"
    using inner_driver_gets_only_fetched [of "world0 [Inr ''dsnA'']" script_d "''master''"]
    by blast
  with c show ?thesis by (simp add: never_passed_def)
qed

text \<open>
  C8 (refuted). The cached pair is not consistent after every \<open>Connect\<close>. From the pair
  \<open>OpenConnector\<close> seeded, goroutine 0 fetches \<open>''dsnB''\<close> and goroutine 1 fetches
  \<open>''dsnC''\<close>; both compare and both build a connector; goroutine 1 assigns
  \<open>c.connector\<close>, then goroutine 0 assigns \<open>c.connector\<close> and \<open>c.innerDSN\<close>, then
  goroutine 1 assigns \<open>c.innerDSN\<close>; both connect and return. The connector is left with
  \<open>innerDSN\<close> \<open>''dsnC''\<close> and the \<open>connector\<close> built for \<open>''dsnB''\<close>. The next
  \<open>Connect\<close>, alone, resolves \<open>''dsnC''\<close>, finds it cached, builds nothing and connects
  through the connector built for \<open>''dsnB''\<close>.
\<close>

theorem cached_pair_inconsistent_counterexample:
  "consistent cA sBC
   \<and> (case run [0, 1, 0, 1, 0, 1, 1, 0, 0, 1, 0, 1] (two, cA, sBC) of
        (gs, c, s) \<Rightarrow>
          map snd gs = [Returned (Return (Inr ''dsnB'')), Returned (Return (Inr ''dsnB''))]
          \<and> innerDSN c = ''dsnC'' \<and> connector c = ''dsnB'' \<and> \<not> consistent c s
          \<and> fst (nativeConnector_Connect c Background s) = (Return (Inr ''dsnB''), c)
          \<and> Connect_calls c Background s =
               [FetchDSNWithContext_call Background ''master'' (Inr ''dsnC''),
                Connect_call ''dsnB'' Background (Inr ''dsnB'')])"
proof -
  have a: "consistent cA sBC"
    by (simp add: consistent_def cA_def sBC_def)
  have b: "run [0, 1, 0, 1, 0, 1, 1, 0, 0, 1, 0, 1] (two, cA, sBC) =
     ([(Background, Returned (Return (Inr ''dsnB''))),
       (Background, Returned (Return (Inr ''dsnB'')))],
      cA\<lparr>connector := ''dsnB'', innerDSN := ''dsnC''\<rparr>,
      \<lparr>env = [Inr ''dsnC'', Inr ''dsnC''],
       calls = calls sBC @
         [FetchDSNWithContext_call Background ''master'' (Inr ''dsnB''),
          FetchDSNWithContext_call Background ''master'' (Inr ''dsnC''),
          OpenConnector_call ''dsnB'' (Inr ''dsnB''),
          OpenConnector_call ''dsnC'' (Inr ''dsnC''),
          Connect_call ''dsnB'' Background (Inr ''dsnB''),
          Connect_call ''dsnB'' Background (Inr ''dsnB'')]\<rparr>)"
    by (simp add: invoke_eq two_def sBC_def cA_def ctx_d_def New_def DSNProviderWCFunc_def
        scripted_ctx_def scripted_def ctx_driver_def parse_dsn_def connect_named_def
        Background_def)
  have torn: "\<not> consistent (cA\<lparr>connector := ''dsnB'', innerDSN := ''dsnC''\<rparr>)
      \<lparr>env = [Inr ''dsnC'', Inr ''dsnC''],
       calls = calls sBC @
         [FetchDSNWithContext_call Background ''master'' (Inr ''dsnB''),
          FetchDSNWithContext_call Background ''master'' (Inr ''dsnC''),
          OpenConnector_call ''dsnB'' (Inr ''dsnB''),
          OpenConnector_call ''dsnC'' (Inr ''dsnC''),
          Connect_call ''dsnB'' Background (Inr ''dsnB''),
          Connect_call ''dsnB'' Background (Inr ''dsnB'')]\<rparr>"
    by (simp add: consistent_def cA_def sBC_def)
  have next_call: "nativeConnector_Connect (cA\<lparr>connector := ''dsnB'', innerDSN := ''dsnC''\<rparr>)
      Background
      \<lparr>env = [Inr ''dsnC'', Inr ''dsnC''],
       calls = calls sBC @
         [FetchDSNWithContext_call Background ''master'' (Inr ''dsnB''),
          FetchDSNWithContext_call Background ''master'' (Inr ''dsnC''),
          OpenConnector_call ''dsnB'' (Inr ''dsnB''),
          OpenConnector_call ''dsnC'' (Inr ''dsnC''),
          Connect_call ''dsnB'' Background (Inr ''dsnB''),
          Connect_call ''dsnB'' Background (Inr ''dsnB'')]\<rparr> =
     ((Return (Inr ''dsnB''), cA\<lparr>connector := ''dsnB'', innerDSN := ''dsnC''\<rparr>),
      \<lparr>env = [Inr ''dsnC''],
       calls = calls sBC @
         [FetchDSNWithContext_call Background ''master'' (Inr ''dsnB''),
          FetchDSNWithContext_call Background ''master'' (Inr ''dsnC''),
          OpenConnector_call ''dsnB'' (Inr ''dsnB''),
          OpenConnector_call ''dsnC'' (Inr ''dsnC''),
          Connect_call ''dsnB'' Background (Inr ''dsnB''),
          Connect_call ''dsnB'' Background (Inr ''dsnB''),
          FetchDSNWithContext_call Background ''master'' (Inr ''dsnC''),
          Connect_call ''dsnB'' Background (Inr ''dsnB'')]\<rparr>)"
    by (simp add: nativeConnector_Connect_def invoke_eq cA_def ctx_d_def New_def
        DSNProviderWCFunc_def scripted_ctx_def scripted_def ctx_driver_def parse_dsn_def
        connect_named_def Background_def)
  show ?thesis
    unfolding b using a torn next_call
    by (simp add: Connect_calls_def new_calls_def cA_def)
qed

text \<open>
  C8 (as the code has it). \<open>OpenConnector\<close> of the wrapping driver, when it returns a
  \<open>nativeConnector\<close>, has fetched its \<open>innerDSN\<close> for the master DSN and got its
  \<open>connector\<close> from the inner driver's \<open>OpenConnector\<close> on that \<open>innerDSN\<close>, in these two
  calls and no other. And a \<open>Connect\<close> that no other \<open>Connect\<close> on the connector
  interleaves, whatever its outcome, keeps the pair consistent: if the cached \<open>connector\<close>
  was returned by the inner driver's \<open>OpenConnector\<close> on the cached \<open>innerDSN\<close> before
  the call, so it is after it. This holds of the sequential \<open>Connect\<close> and of a goroutine
  that takes all its steps in a row among others.
\<close>

theorem cached_pair_consistent:
  "(Driver_OpenConnector d dsn s = (Inr (Native c), s') \<longrightarrow>
      new_calls s s' = [FetchDSN_call dsn (Inr (innerDSN c)),
                        OpenConnector_call (innerDSN c) (Inr (connector c))]
      \<and> consistent c s')
   \<and> (consistent c s \<longrightarrow>
        consistent (snd (fst (nativeConnector_Connect c ctx s)))
                   (snd (nativeConnector_Connect c ctx s)))
   \<and> (i < length gs \<and> gs ! i = (ctx, L107) \<and> consistent c s \<longrightarrow>
        consistent (fst (snd (run [i, i, i, i, i, i] (gs, c, s))))
                   (snd (snd (run [i, i, i, i, i, i] (gs, c, s)))))"
proof (intro conjI impI)
  assume h: "Driver_OpenConnector d dsn s = (Inr (Native c), s')"
  then have app: "calls s' = calls s @ [FetchDSN_call dsn (Inr (innerDSN c)),
                               OpenConnector_call (innerDSN c) (Inr (connector c))]"
    using Driver_OpenConnector_Native by blast
  then show "new_calls s s' = [FetchDSN_call dsn (Inr (innerDSN c)),
                        OpenConnector_call (innerDSN c) (Inr (connector c))]"
    by (simp add: new_calls_def)
  from app show "consistent c s'" by (simp add: consistent_def)
next
  assume "consistent c s"
  then show "consistent (snd (fst (nativeConnector_Connect c ctx s)))
                   (snd (nativeConnector_Connect c ctx s))"
    by (rule Connect_keeps_consistent)
next
  assume h: "i < length gs \<and> gs ! i = (ctx, L107) \<and> consistent c s"
  then have alone: "run [i, i, i, i, i, i] (gs, c, s) =
    (gs[i := (ctx, Returned (fst (fst (nativeConnector_Connect c ctx s))))],
     snd (fst (nativeConnector_Connect c ctx s)), snd (nativeConnector_Connect c ctx s))"
    using run_alone [of i gs ctx c s] by blast
  from h have "consistent (snd (fst (nativeConnector_Connect c ctx s)))
                   (snd (nativeConnector_Connect c ctx s))"
    using Connect_keeps_consistent [of c s ctx] by blast
  then show "consistent (fst (snd (run [i, i, i, i, i, i] (gs, c, s))))
                   (snd (snd (run [i, i, i, i, i, i] (gs, c, s))))"
    unfolding alone by simp
qed

text \<open>
  \<open>OpenConnector\<close> seeds the connector with \<open>''dsnA''\<close>; the next \<open>Connect\<close> resolves
  \<open>''dsnB''\<close> and replaces both fields. Of two goroutines, the first taking its steps in
  a row leaves the pair consistent.
\<close>

theorem cached_pair_consistent_witness:
  "Driver_OpenConnector ctx_d ''master'' (world0 [Inr ''dsnA'', Inr ''dsnB'']) = (Inr (Native cA), sA)
   \<and> new_calls (world0 [Inr ''dsnA'', Inr ''dsnB'']) sA =
       [FetchDSN_call ''master'' (Inr ''dsnA''), OpenConnector_call ''dsnA'' (Inr ''dsnA'')]
   \<and> consistent cA sA
   \<and> snd (fst (nativeConnector_Connect cA Background sA)) =
       cA\<lparr>connector := ''dsnB'', innerDSN := ''dsnB''\<rparr>
   \<and> consistent (snd (fst (nativeConnector_Connect cA Background sA)))
       (snd (nativeConnector_Connect cA Background sA))
   \<and> (0::nat) < length two \<and> two ! 0 = (Background, L107)
   \<and> fst (snd (run [0, 0, 0, 0, 0, 0] (two, cA, sA))) =
       cA\<lparr>connector := ''dsnB'', innerDSN := ''dsnB''\<rparr>
   \<and> consistent (fst (snd (run [0, 0, 0, 0, 0, 0] (two, cA, sA))))
       (snd (snd (run [0, 0, 0, 0, 0, 0] (two, cA, sA))))"
proof -
  have h: "Driver_OpenConnector ctx_d ''master'' (world0 [Inr ''dsnA'', Inr ''dsnB'']) =
             (Inr (Native cA), sA)"
    by (simp add: Driver_OpenConnector_def invoke_eq sA_def cA_def ctx_d_def New_def
        DSNProviderWCFunc_def scripted_ctx_def scripted_def
        ctx_driver_def parse_dsn_def connect_named_def world0_def Background_def)
  have n: "innerDSN cA = ''dsnA'' \<and> connector cA = ''dsnA''"
    by (simp add: cA_def)
  have after: "snd (fst (nativeConnector_Connect cA Background sA)) =
       cA\<lparr>connector := ''dsnB'', innerDSN := ''dsnB''\<rparr>"
    by (simp add: nativeConnector_Connect_def invoke_eq sA_def cA_def ctx_d_def New_def
        DSNProviderWCFunc_def scripted_ctx_def scripted_def
        ctx_driver_def parse_dsn_def connect_named_def world0_def Background_def)
  have g: "(0::nat) < length two \<and> two ! 0 = (Background, L107)"
    by (simp add: two_def)
  have ran: "fst (snd (run [0, 0, 0, 0, 0, 0] (two, cA, sA))) =
       cA\<lparr>connector := ''dsnB'', innerDSN := ''dsnB''\<rparr>"
    by (simp add: invoke_eq two_def sA_def cA_def ctx_d_def New_def
        DSNProviderWCFunc_def scripted_ctx_def scripted_def
        ctx_driver_def parse_dsn_def connect_named_def Background_def)
  have seeded: "new_calls (world0 [Inr ''dsnA'', Inr ''dsnB'']) sA =
       [FetchDSN_call ''master'' (Inr ''dsnA''), OpenConnector_call ''dsnA'' (Inr ''dsnA'')]
     \<and> consistent cA sA"
    using cached_pair_consistent
      [of ctx_d "''master''" "world0 [Inr ''dsnA'', Inr ''dsnB'']" cA sA Background 0 two] h n
    by simp
  note t = cached_pair_consistent [of ctx_d "''master''" sA cA sA Background 0 two]
  from t seeded have k1: "consistent (snd (fst (nativeConnector_Connect cA Background sA)))
       (snd (nativeConnector_Connect cA Background sA))"
    by blast
  from t seeded g have k2: "consistent (fst (snd (run [0, 0, 0, 0, 0, 0] (two, cA, sA))))
       (snd (snd (run [0, 0, 0, 0, 0, 0] (two, cA, sA))))"
    by blast
  from h seeded after g ran k1 k2 show ?thesis by blast
qed

text \<open>
  C9 (refuted). With a done context, a \<open>Connect\<close> need not fail, and the inner connector's
  \<open>Connect\<close> may be called. A \<open>dsnConnector\<close> drops the context and opens a connection.
  A \<open>nativeConnector\<close> whose provider has no \<open>FetchDSNWithContext\<close> of its own (\<open>New\<close>
  wrapped it) resolves as usual and calls the inner connector's \<open>Connect\<close> with the done
  context.
\<close>

theorem done_context_counterexample:
  "Err canceled = Some Canceled
   \<and> dsnConnector_Connect \<lparr>dsnConnector.masterDSN = ''master'', dsnConnector.driver = script_d\<rparr>
        canceled (world0 [Inr ''dsnA'']) =
       (Inr ''dsnA'',
        \<lparr>env = [],
         calls = [FetchDSN_call ''master'' (Inr ''dsnA''), Open_call ''dsnA'' (Inr ''dsnA'')]\<rparr>)
   \<and> Connect_calls
        \<lparr>masterDSN = ''master'', innerDSN = ''dsnA'', connector = ''dsnA'', driver = basic_d\<rparr>
        canceled (world0 [Inr ''dsnA'']) =
       [FetchDSNWithContext_call canceled ''master'' (Inr ''dsnA''),
        Connect_call ''dsnA'' canceled (Inl (ContextError Canceled))]"
  by (simp add: dsnConnector_Connect_def Driver_Open_eq Connect_calls_def
      nativeConnector_Connect_def invoke_eq new_calls_def canceled_def script_d_def basic_d_def
      New_def DSNProviderFunc_def
      fullProvider_def fullProvider_FetchDSNWithContext_def scripted_def plain_driver_def
      ctx_driver_def parse_dsn_def connect_named_def world0_def)

text \<open>
  C9 (as the code has it). The package never inspects the context: it hands it to the
  provider's \<open>FetchDSNWithContext\<close>. When the context is done and the provider answers
  the fetch with the context's error, the \<open>Connect\<close> of a \<open>nativeConnector\<close> returns that
  error, leaves the connector as it was, and calls neither the inner driver's
  \<open>OpenConnector\<close> nor the inner connector's \<open>Connect\<close>.
\<close>

theorem done_context_honoured_by_provider:
  assumes "Err ctx = Some e" and "resolved c ctx s = Inl (ContextError e)"
  shows "fst (nativeConnector_Connect c ctx s) = (Return (Inl (ContextError e)), c)
     \<and> Connect_calls c ctx s = [FetchDSNWithContext_call ctx (masterDSN c) (Inl (ContextError e))]
     \<and> filter is_Connect_call (Connect_calls c ctx s) = []"
  using assms by (simp add: Connect_calls_def Connect_fetch_error)

theorem done_context_honoured_by_provider_witness:
  "Err canceled = Some Canceled
   \<and> resolved cA canceled (world0 [Inr ''dsnB'']) = Inl (ContextError Canceled)
   \<and> fst (nativeConnector_Connect cA canceled (world0 [Inr ''dsnB''])) =
       (Return (Inl (ContextError Canceled)), cA)
   \<and> Connect_calls cA canceled (world0 [Inr ''dsnB'']) =
       [FetchDSNWithContext_call canceled ''master'' (Inl (ContextError Canceled))]"
proof -
  have h1: "Err canceled = Some Canceled"
    by (simp add: canceled_def)
  have h2: "resolved cA canceled (world0 [Inr ''dsnB'']) = Inl (ContextError Canceled)"
    by (simp add: resolved_def cA_def ctx_d_def New_def DSNProviderWCFunc_def scripted_ctx_def
        scripted_def
        ctx_driver_def parse_dsn_def connect_named_def world0_def Background_def canceled_def)
  have m: "masterDSN cA = ''master''" by (simp add: cA_def)
  from h1 h2 done_context_honoured_by_provider [OF h1 h2] m show ?thesis by simp
qed

text \<open>
  C10. The \<open>Connect\<close> of a \<open>dsnConnector\<close> drops its context. For every context, every
  master DSN and every world it is \<open>Driver.Open\<close> on the master DSN: it asks the provider
  through \<open>FetchDSN\<close>, the fetch that takes no context; on an error it returns the error,
  that fetch being its only call; otherwise it calls the inner driver's \<open>Open\<close> on the
  fetched DSN and returns what \<open>Open\<close> returns. So the result is the same for any two
  contexts, and none of the calls it makes is handed a context.
\<close>

theorem dsnConnector_drops_context:
  "dsnConnector_Connect c ctx s = Driver_Open (dsnConnector.driver c) (dsnConnector.masterDSN c) s
   \<and> dsnConnector_Connect c ctx s =
       (case FetchDSN (dsnp (dsnConnector.driver c)) (dsnConnector.masterDSN c) (env s) of
          (Inl err, w1) \<Rightarrow>
            (Inl err,
             \<lparr>env = w1, calls = calls s @ [FetchDSN_call (dsnConnector.masterDSN c) (Inl err)]\<rparr>)
        | (Inr innerDSN', w1) \<Rightarrow>
            (case Open (Driver (dsnConnector.driver c)) innerDSN' w1 of
               (r, w2) \<Rightarrow>
                 (r, \<lparr>env = w2,
                      calls = calls s @ [FetchDSN_call (dsnConnector.masterDSN c) (Inr innerDSN'),
                                         Open_call innerDSN' r]\<rparr>)))
   \<and> dsnConnector_Connect c ctx s = dsnConnector_Connect c ctx' s
   \<and> new_calls s (snd (dsnConnector_Connect c ctx s)) \<noteq> []
   \<and> filter carries_context (new_calls s (snd (dsnConnector_Connect c ctx s))) = []"
  by (simp add: dsnConnector_Connect_def Driver_Open_eq split: sum.splits prod.splits)

text \<open>
  A provider that takes a context and fails on a done one, under a \<open>dsnConnector\<close>
  called with a done context: the provider is asked through \<open>FetchDSN\<close>, which hands it
  \<open>context.Background()\<close>, and the connection is opened.
\<close>

theorem dsnConnector_drops_context_witness:
  "Err canceled = Some Canceled
   \<and> fst (FetchDSNWithContext (dsnp wc_plain_d) canceled ''master'' [Inr ''dsnA'']) =
       Inl (ContextError Canceled)
   \<and> dsnConnector_Connect \<lparr>dsnConnector.masterDSN = ''master'', dsnConnector.driver = wc_plain_d\<rparr>
        canceled (world0 [Inr ''dsnA'']) =
       (Inr ''dsnA'',
        \<lparr>env = [],
         calls = [FetchDSN_call ''master'' (Inr ''dsnA''), Open_call ''dsnA'' (Inr ''dsnA'')]\<rparr>)
   \<and> dsnConnector_Connect \<lparr>dsnConnector.masterDSN = ''master'', dsnConnector.driver = wc_plain_d\<rparr>
        Background (world0 [Inr ''dsnA'']) =
       (Inr ''dsnA'',
        \<lparr>env = [],
         calls = [FetchDSN_call ''master'' (Inr ''dsnA''), Open_call ''dsnA'' (Inr ''dsnA'')]\<rparr>)"
proof -
  let ?c = "\<lparr>dsnConnector.masterDSN = ''master'', dsnConnector.driver = wc_plain_d\<rparr>"
  let ?s = "world0 [Inr ''dsnA''] :: ((error + string) list, string, string) world"
  have h1: "Err canceled = Some Canceled"
    by (simp add: canceled_def)
  have h2: "fst (FetchDSNWithContext (dsnp wc_plain_d) canceled ''master'' [Inr ''dsnA'']) =
       Inl (ContextError Canceled)"
    by (simp add: wc_plain_d_def New_def DSNProviderWCFunc_def scripted_ctx_def canceled_def)
  note t = dsnConnector_drops_context [of ?c canceled ?s Background]
  have f: "FetchDSN (dsnp wc_plain_d) ''master'' [Inr ''dsnA''] = (Inr ''dsnA'', [])"
    by (simp add: wc_plain_d_def New_def DSNProviderWCFunc_def scripted_ctx_def scripted_def
        Background_def)
  have o: "Open (Driver wc_plain_d) ''dsnA'' ([] :: (error + string) list) = (Inr ''dsnA'', [])"
    by (simp add: wc_plain_d_def New_def DSNProviderWCFunc_def plain_driver_def parse_dsn_def)
  note e = t [THEN conjunct2, THEN conjunct1]
  note same = t [THEN conjunct2, THEN conjunct2, THEN conjunct1]
  from e f o have r: "dsnConnector_Connect ?c canceled ?s =
       (Inr ''dsnA'',
        \<lparr>env = [],
         calls = [FetchDSN_call ''master'' (Inr ''dsnA''), Open_call ''dsnA'' (Inr ''dsnA'')]\<rparr>)"
    by (simp add: world0_def)
  from same r have r': "dsnConnector_Connect ?c Background ?s =
       (Inr ''dsnA'',
        \<lparr>env = [],
         calls = [FetchDSN_call ''master'' (Inr ''dsnA''), Open_call ''dsnA'' (Inr ''dsnA'')]\<rparr>)"
    by simp
  from h1 h2 r r' show ?thesis by blast
qed

end
